theory Spec2Isabelle
  imports Complex_Main "HOL-Library.Sublist"
begin

section \<open>JavaScript values\<close>

text \<open>
  A JavaScript string is modelled by \<^typ>\<open>string\<close>, one \<^typ>\<open>char\<close> for one code
  unit; \<open>length\<close> is the \<open>.length\<close> of the source. Only the code units below 256 have a
  \<^typ>\<open>char\<close>, so of the white space that \<open>String.prototype.trim\<close> strips the model knows
  TAB, LF, VT, FF, CR, SPACE and NO-BREAK SPACE.
\<close>

definition isWhiteSpace :: "char \<Rightarrow> bool" where
  "isWhiteSpace c \<longleftrightarrow>
     c \<in> {CHR 0x09, CHR 0x0A, CHR 0x0B, CHR 0x0C, CHR 0x0D, CHR 0x20, CHR 0xA0}"

definition trimStart :: "string \<Rightarrow> string" where
  "trimStart s = dropWhile isWhiteSpace s"

definition trimEnd :: "string \<Rightarrow> string" where
  "trimEnd s = rev (dropWhile isWhiteSpace (rev s))"

definition trim :: "string \<Rightarrow> string" where
  "trim s = trimEnd (trimStart s)"

text \<open>
  The decimal rendering of a non-negative integer, as a template literal
  \<^verbatim>\<open>`${n}`\<close> produces it.
\<close>

fun Number_toString :: "nat \<Rightarrow> string" where
  "Number_toString n =
     (if n < 10 then [''0123456789'' ! n]
      else Number_toString (n div 10) @ [''0123456789'' ! (n mod 10)])"

declare Number_toString.simps [simp del]

text \<open>
  The numbers that \<open>JSON.parse\<close> yields: a finite double, by its exact value (\<open>Finite 0\<close>
  is \<open>+0\<close>), \<open>-0\<close>, and \<open>Infinity\<close> or \<open>-Infinity\<close> for a literal beyond the range of
  a double, such as \<open>1e400\<close>. It never yields \<open>NaN\<close>.
\<close>

datatype js_number = Finite rat | NegZero | PosInfinity | NegInfinity

text \<open>
  The values that \<open>JSON.parse\<close> yields. An object is the list of its members in
  insertion order, with distinct keys, as the parser builds it.
\<close>

datatype json_value =
    JNull
  | JBool bool
  | JNum js_number
  | JStr string
  | JArr "json_value list"
  | JObj "(string \<times> json_value) list"

text \<open>
  A property read \<open>v.k\<close> on a parsed value: \<open>null.k\<close> throws a TypeError (\<open>Inl\<close>, with
  the engine's message), an object gives the member or \<open>undefined\<close> (\<open>None\<close>), and
  the keys read by this program are own properties of no boolean, number, string or
  array, so those give \<open>undefined\<close>.
\<close>

definition getProp :: "json_value \<Rightarrow> string \<Rightarrow> string + json_value option" where
  "getProp v k =
     (case v of
        JNull \<Rightarrow>
          Inl (''Cannot read properties of null (reading '' @ [CHR 0x27] @ k @ [CHR 0x27] @ '')'')
      | JObj ms \<Rightarrow> Inr (map_of ms k)
      | _ \<Rightarrow> Inr None)"

text \<open>The same read on a value that may already be \<open>undefined\<close>.\<close>

definition getPropU :: "json_value option \<Rightarrow> string \<Rightarrow> string + json_value option" where
  "getPropU v k =
     (case v of
        None \<Rightarrow>
          Inl (''Cannot read properties of undefined (reading '' @ [CHR 0x27] @ k
               @ [CHR 0x27] @ '')'')
      | Some w \<Rightarrow> getProp w k)"

text \<open>\<open>ToBoolean\<close>: what \<open>&&\<close>, \<open>?:\<close> and \<open>!\<close> test.\<close>

fun truthy :: "json_value option \<Rightarrow> bool" where
  "truthy None = False"
| "truthy (Some JNull) = False"
| "truthy (Some (JBool b)) = b"
| "truthy (Some (JNum n)) =
     (case n of Finite x \<Rightarrow> x \<noteq> 0 | NegZero \<Rightarrow> False | PosInfinity \<Rightarrow> True | NegInfinity \<Rightarrow> True)"
| "truthy (Some (JStr s)) = (s \<noteq> [])"
| "truthy (Some (JArr xs)) = True"
| "truthy (Some (JObj ms)) = True"

section \<open>Session and user identity\<close>

text \<open>
  \<open>sessionStorage\<close> and \<open>localStorage\<close> map keys to strings; \<open>getItem\<close> of a missing
  key is \<open>null\<close> (\<open>None\<close>). On the server there is no \<open>window\<close>: the browser is \<open>None\<close>.
\<close>

type_synonym storage = "string \<rightharpoonup> string"

record browser =
  sessionStorage :: storage
  localStorage :: storage

text \<open>
  \<^verbatim>\<open>uuidv4().replace(/-/g, "").slice(0, 32)\<close>, for the string \<open>uuid\<close> that the call to
  \<open>uuidv4\<close> returns.
\<close>

definition newId :: "string \<Rightarrow> string" where
  "newId uuid = take 32 (filter (\<lambda>c. c \<noteq> CHR ''-'') uuid)"

text \<open>
  \<^verbatim>\<open>id && id.length <= 32 ? id : null\<close>: a missing value, the empty string (falsy) and
  a value longer than 32 all become \<open>null\<close>.
\<close>

definition validId :: "string option \<Rightarrow> string option" where
  "validId v =
     (case v of
        None \<Rightarrow> None
      | Some s \<Rightarrow> if s \<noteq> [] \<and> length s \<le> 32 then Some s else None)"

definition getSessionId :: "string \<Rightarrow> browser option \<Rightarrow> string \<times> browser option" where
  "getSessionId uuid w =
     (case w of
        None \<Rightarrow> ([], None)
      | Some b \<Rightarrow>
          (case validId (sessionStorage b ''sessionId'') of
             Some sessionId \<Rightarrow> (sessionId, Some b)
           | None \<Rightarrow>
               (let sessionId = newId uuid
                in (sessionId,
                    Some (b\<lparr>sessionStorage := (sessionStorage b)(''sessionId'' \<mapsto> sessionId)\<rparr>)))))"

definition getUserId :: "string \<Rightarrow> browser option \<Rightarrow> string \<times> browser option" where
  "getUserId uuid w =
     (case w of
        None \<Rightarrow> ([], None)
      | Some b \<Rightarrow>
          (case validId (localStorage b ''userId'') of
             Some userId \<Rightarrow> (userId, Some b)
           | None \<Rightarrow>
               (let userId = newId uuid
                in (userId,
                    Some (b\<lparr>localStorage := (localStorage b)(''userId'' \<mapsto> userId)\<rparr>)))))"

section \<open>HTTP as the two components see it\<close>

text \<open>
  \<open>JSON.parse(JSON.stringify(v))\<close>: what the reader of a body gets when the writer
  serialised \<open>v\<close>. \<open>JSON.stringify\<close> writes \<open>Infinity\<close> and \<open>-Infinity\<close> as \<open>null\<close> and \<open>-0\<close>
  as \<open>0\<close>; every other parsed value comes back as it was.
\<close>

primrec JSON_roundtrip :: "json_value \<Rightarrow> json_value" where
  "JSON_roundtrip JNull = JNull"
| "JSON_roundtrip (JBool b) = JBool b"
| "JSON_roundtrip (JNum n) =
     (case n of
        Finite x \<Rightarrow> JNum (Finite x)
      | NegZero \<Rightarrow> JNum (Finite 0)
      | PosInfinity \<Rightarrow> JNull
      | NegInfinity \<Rightarrow> JNull)"
| "JSON_roundtrip (JStr s) = JStr s"
| "JSON_roundtrip (JArr xs) = JArr (map JSON_roundtrip xs)"
| "JSON_roundtrip (JObj ms) = JObj (map (map_prod id JSON_roundtrip) ms)"

text \<open>A value without \<open>-0\<close>, \<open>Infinity\<close> and \<open>-Infinity\<close>.\<close>

primrec plain :: "json_value \<Rightarrow> bool" where
  "plain JNull = True"
| "plain (JBool b) = True"
| "plain (JNum n) =
     (case n of
        Finite x \<Rightarrow> True
      | NegZero \<Rightarrow> False
      | PosInfinity \<Rightarrow> False
      | NegInfinity \<Rightarrow> False)"
| "plain (JStr s) = True"
| "plain (JArr xs) = list_all (\<lambda>b. b) (map plain xs)"
| "plain (JObj ms) = list_all (\<lambda>kb. snd kb) (map (map_prod id plain) ms)"

text \<open>
  A JSON body is modelled by the value that its writer hands to \<open>JSON.stringify\<close> or
  \<open>res.json\<close>; \<open>None\<close> is \<open>undefined\<close>, no body. Its reader gets \<open>JSON_roundtrip\<close> of that
  value. The serialiser and the parser are the platform's.

  Of a response the component reads \<open>status\<close>, \<open>ok\<close> and \<open>json()\<close>; the relay also reads
  \<open>text()\<close>. Reading the body can throw: \<open>Inl\<close> carries the message of the error (for
  \<open>json()\<close>, also the SyntaxError of a body that is not JSON).
\<close>

record fetch_request =
  url :: "string option"
  http_method :: string
  http_headers :: "(string \<times> string) list"
  http_body :: "json_value option"

record fetch_response =
  status :: nat
  body_json :: "string + json_value"

record upstream_response = fetch_response +
  body_text :: "string + string"

definition ok :: "'a fetch_response_scheme \<Rightarrow> bool" where
  "ok r \<longleftrightarrow> 200 \<le> status r \<and> status r \<le> 299"

text \<open>\<open>await fetch(...)\<close> either throws an error with a message or gives a response.\<close>

datatype 'r fetch_result = Rejected string | Resolved 'r

section \<open>The relay: pages/api/proxy.js\<close>

record chat_config =
  flowURL :: "string option"

record environment =
  ZEROWIDTH_API_KEY :: "string option"

record api_request =
  req_method :: string
  req_body :: "json_value option"

record api_response =
  statusCode :: nat
  headers :: "string \<rightharpoonup> string"
  sent :: "json_value option"

text \<open>What the caller of the relay reads from the body of the response.\<close>

definition delivered :: "api_response \<Rightarrow> json_value option" where
  "delivered res = map_option JSON_roundtrip (sent res)"

definition setHeader :: "string \<Rightarrow> string \<Rightarrow> api_response \<Rightarrow> api_response" where
  "setHeader k v res = res\<lparr>headers := (headers res)(k \<mapsto> v)\<rparr>"

text \<open>A template literal renders \<open>undefined\<close> as the word.\<close>

definition template :: "string option \<Rightarrow> string" where
  "template v = (case v of None \<Rightarrow> ''undefined'' | Some s \<Rightarrow> s)"

text \<open>The call \<open>fetch(apiUrl, {method, headers, body})\<close> of the handler.\<close>

definition upstream_request ::
  "chat_config \<Rightarrow> environment \<Rightarrow> json_value option \<Rightarrow> fetch_request" where
  "upstream_request chatConfig env requestBody =
     (let apiUrl = flowURL chatConfig;
          bearerToken = ZEROWIDTH_API_KEY env
      in \<lparr>url = apiUrl,
          http_method = ''POST'',
          http_headers =
            [(''Content-Type'', ''application/json''),
             (''Authorization'', ''Bearer '' @ template bearerToken)],
          http_body = requestBody\<rparr>)"

text \<open>
  The \<open>try\<close> block up to \<open>data\<close>: \<open>Inl\<close> is the message of the error thrown, by
  \<open>fetch\<close>, by reading the body, or by the handler itself on a status outside 200..299.
\<close>

definition forward :: "upstream_response fetch_result \<Rightarrow> string + json_value" where
  "forward result =
     (case result of
        Rejected msg \<Rightarrow> Inl msg
      | Resolved response \<Rightarrow>
          if \<not> ok response then
            (case body_text response of
               Inl msg \<Rightarrow> Inl msg
             | Inr errorText \<Rightarrow>
                 Inl (''Zerowidth API error '' @ Number_toString (status response)
                      @ '': '' @ errorText))
          else body_json response)"

text \<open>
  The handler, given what \<open>fetch\<close> answers to a request. It returns the response and
  the requests it sent upstream.
\<close>

definition handler ::
  "chat_config \<Rightarrow> environment \<Rightarrow> (fetch_request \<Rightarrow> upstream_response fetch_result)
     \<Rightarrow> api_request \<Rightarrow> api_response \<times> fetch_request list" where
  "handler chatConfig env fetch req =
     (let res = setHeader ''Access-Control-Allow-Headers'' ''Content-Type, Authorization''
                 (setHeader ''Access-Control-Allow-Methods'' ''POST, OPTIONS''
                   (setHeader ''Access-Control-Allow-Origin'' ''*''
                     \<lparr>statusCode = 200, headers = Map.empty, sent = None\<rparr>))
      in if req_method req = ''OPTIONS'' then (res\<lparr>statusCode := 200\<rparr>, [])
         else if req_method req \<noteq> ''POST'' then
           (res\<lparr>statusCode := 405,
                sent := Some (JObj [(''error'', JStr ''Method not allowed'')])\<rparr>, [])
         else
           (let requestBody = req_body req;
                rq = upstream_request chatConfig env requestBody
            in case forward (fetch rq) of
                 Inr data \<Rightarrow> (res\<lparr>statusCode := 200, sent := Some data\<rparr>, [rq])
               | Inl message \<Rightarrow>
                   (res\<lparr>statusCode := 500,
                        sent := Some (JObj [(''error'', JStr ''Internal Server Error''),
                                            (''details'', JStr message)])\<rparr>, [rq])))"

section \<open>The chat component\<close>

record chat_message =
  role :: string
  content :: json_value

text \<open>
  The state of the second component of the file (the one with the fixed identifiers),
  and the state of the first, which adds the identity pair and the hover flags.
\<close>

record chat_state =
  message :: string
  conversation :: "chat_message list"
  error :: "string option"
  isLoading :: bool

record agent_state = chat_state +
  sessionId :: string
  userId :: string
  hoveredIndex :: "nat option"
  isSubmitHovered :: bool

definition initial_state :: agent_state where
  "initial_state =
     \<lparr>message = [], conversation = [], error = None, isLoading = False,
      sessionId = [], userId = [], hoveredIndex = None, isSubmitHovered = False\<rparr>"

text \<open>The effect run once after the first render.\<close>

definition initIdentity ::
  "string \<Rightarrow> string \<Rightarrow> browser option \<Rightarrow> agent_state \<Rightarrow> agent_state \<times> browser option" where
  "initIdentity uuid1 uuid2 w s =
     (let (sid, w1) = getSessionId uuid1 w;
          (uid, w2) = getUserId uuid2 w1
      in (s\<lparr>sessionId := sid, userId := uid\<rparr>, w2))"

definition message_json :: "chat_message \<Rightarrow> json_value" where
  "message_json m = JObj [(''role'', JStr (role m)), (''content'', content m)]"

definition payload :: "chat_message \<Rightarrow> string \<Rightarrow> string \<Rightarrow> json_value" where
  "payload userMessage user_id session_id =
     JObj [(''data'', JObj [(''message'', message_json userMessage)]),
           (''stateful'', JBool True),
           (''stream'', JBool False),
           (''user_id'', JStr user_id),
           (''session_id'', JStr session_id),
           (''verbose'', JBool False)]"

definition proxy_request :: "json_value \<Rightarrow> fetch_request" where
  "proxy_request p =
     \<lparr>url = Some ''/api/proxy'',
      http_method = ''POST'',
      http_headers = [(''Content-Type'', ''application/json'')],
      http_body = Some p\<rparr>"

text \<open>
  \<open>submitMessage\<close> of the first component (lines 144 to 187), up to its \<open>await fetch\<close>:
  the new state and the request it sends, if any. The setters act in the order of the
  source; \<open>userId\<close> and \<open>sessionId\<close> are those of the render that made the closure.
\<close>

definition submitMessage ::
  "string \<Rightarrow> agent_state \<Rightarrow> agent_state \<times> fetch_request option" where
  "submitMessage userInput s =
     (if trim userInput = [] then (s, None)
      else
        (let s1 = s\<lparr>message := []\<rparr>;
             s2 = s1\<lparr>error := None\<rparr>;
             userMessage = \<lparr>role = ''user'', content = JStr (trim userInput)\<rparr>;
             s3 = s2\<lparr>conversation := conversation s2 @ [userMessage]\<rparr>;
             p = payload userMessage (userId s) (sessionId s);
             s4 = s3\<lparr>isLoading := True\<rparr>
         in (s4, Some (proxy_request p))))"

definition handleSubmit :: "agent_state \<Rightarrow> agent_state \<times> fetch_request option" where
  "handleSubmit s = submitMessage (message s) s"

text \<open>
  \<open>handlePromptClick\<close> (lines 266 to 273) sets the input and leaves the call
  \<open>submitMessage(prompt)\<close> to a timer of 0 ms: the new state and the prompt that the
  timer will submit.
\<close>

definition handlePromptClick :: "string \<Rightarrow> agent_state \<Rightarrow> agent_state \<times> string" where
  "handlePromptClick prompt s = (s\<lparr>message := prompt\<rparr>, prompt)"

text \<open>
  \<open>handleSubmit\<close> of the second component (lines 607 to 650), up to its \<open>await fetch\<close>.
  It clears the error first and tests the input second.
\<close>

definition handleSubmit2 :: "chat_state \<Rightarrow> chat_state \<times> fetch_request option" where
  "handleSubmit2 s =
     (let s1 = s\<lparr>error := None\<rparr>
      in if trim (message s) = [] then (s1, None)
         else
           (let userMessage = \<lparr>role = ''user'', content = JStr (trim (message s))\<rparr>;
                s2 = s1\<lparr>conversation := conversation s1 @ [userMessage]\<rparr>;
                p = payload userMessage ''userID_RandomID'' ''sessionID_RandomID'';
                s3 = s2\<lparr>isLoading := True\<rparr>
            in (s3, Some (proxy_request p))))"

text \<open>
  \<^verbatim>\<open>data.output_data && data.output_data.content ? data.output_data.content : "No valid..."\<close>.
  Reading \<open>output_data\<close> of \<open>null\<close> throws; a truthy \<open>output_data\<close> is neither \<open>null\<close>
  nor \<open>undefined\<close>, so reading its \<open>content\<close> does not.
\<close>

definition agentReply :: "json_value \<Rightarrow> string + json_value" where
  "agentReply data =
     (case getProp data ''output_data'' of
        Inl e \<Rightarrow> Inl e
      | Inr output_data \<Rightarrow>
          if \<not> truthy output_data then Inr (JStr ''No valid response received from agent.'')
          else
            (case getPropU output_data ''content'' of
               Inl e \<Rightarrow> Inl e
             | Inr c \<Rightarrow>
                 (case c of
                    None \<Rightarrow> Inr (JStr ''No valid response received from agent.'')
                  | Some v \<Rightarrow>
                      if truthy c then Inr v
                      else Inr (JStr ''No valid response received from agent.''))))"

text \<open>
  The rest of the \<open>try\<close> block, from the result of \<open>await fetch\<close> on; the text is the same
  in both components (lines 189 to 214 and 652 to 677). \<open>Inl\<close> is the message of the
  error thrown; the state changes only at the end, after everything that can throw.
\<close>

definition try_block ::
  "fetch_response fetch_result \<Rightarrow> 'a chat_state_scheme \<Rightarrow> string + 'a chat_state_scheme" where
  "try_block result s =
     (case result of
        Rejected msg \<Rightarrow> Inl msg
      | Resolved res \<Rightarrow>
          if \<not> ok res then Inl (''Server error: '' @ Number_toString (status res))
          else
            (case body_json res of
               Inl msg \<Rightarrow> Inl msg
             | Inr data \<Rightarrow>
                 (case agentReply data of
                    Inl msg \<Rightarrow> Inl msg
                  | Inr reply \<Rightarrow>
                      (let agentMessage = \<lparr>role = ''agent'', content = reply\<rparr>;
                           s1 = s\<lparr>conversation := conversation s @ [agentMessage]\<rparr>
                       in Inr (s1\<lparr>message := []\<rparr>)))))"

text \<open>\<open>try\<close>, \<open>catch\<close> and \<open>finally\<close>: the state once the request has settled.\<close>

definition settle ::
  "fetch_response fetch_result \<Rightarrow> 'a chat_state_scheme \<Rightarrow> 'a chat_state_scheme" where
  "settle result s =
     (let s1 = (case try_block result s of
                  Inl msg \<Rightarrow> s\<lparr>error := Some msg\<rparr>
                | Inr s' \<Rightarrow> s')
      in s1\<lparr>isLoading := False\<rparr>)"

text \<open>\<^verbatim>\<open>disabled={isLoading}\<close> on the submit button of both components.\<close>

definition submit_disabled :: "'a chat_state_scheme \<Rightarrow> bool" where
  "submit_disabled s = isLoading s"

text \<open>A whole turn: the state when \<open>submitMessage\<close> has returned.\<close>

definition submit_turn ::
  "(fetch_request \<Rightarrow> fetch_response fetch_result) \<Rightarrow> string \<Rightarrow> agent_state \<Rightarrow> agent_state" where
  "submit_turn fetch userInput s =
     (case submitMessage userInput s of
        (s', None) \<Rightarrow> s'
      | (s', Some rq) \<Rightarrow> settle (fetch rq) s')"

text \<open>The hover handlers of the suggested prompts, and \<^verbatim>\<open>disabled={isLoading}\<close> on them.\<close>

definition handlePromptMouseOver :: "nat \<Rightarrow> agent_state \<Rightarrow> agent_state" where
  "handlePromptMouseOver index s =
     (if \<not> isLoading s then s\<lparr>hoveredIndex := Some index\<rparr> else s)"

definition handlePromptMouseOut :: "agent_state \<Rightarrow> agent_state" where
  "handlePromptMouseOut s = s\<lparr>hoveredIndex := None\<rparr>"

definition prompt_disabled :: "agent_state \<Rightarrow> bool" where
  "prompt_disabled s = isLoading s"

text \<open>
  The page of the first component: the state, the prompts of the timers set and not yet
  run, oldest first, and the requests sent and not yet settled.
\<close>

record page =
  state :: agent_state
  timers :: "string list"
  in_flight :: "fetch_request list"

text \<open>
  An event is what the page delivers to the component: typing, submitting the form,
  clicking or hovering a suggested prompt, hovering the submit button, the oldest timer
  running, and the settling of one of the requests in flight. The page delivers no
  submit and no click while the control is disabled. \<open>submitMessage\<close> itself does not
  look at \<open>isLoading\<close>, so a timer set while the buttons were enabled submits whatever
  the state is by then. The identifiers do not change after the mount effect, so those
  of the closure that the timer calls are those of the state.
\<close>

datatype event =
    Change string
  | SubmitForm
  | PromptClick string
  | Timeout
  | PromptMouseOver nat
  | PromptMouseOut
  | SubmitMouseOver
  | SubmitMouseOut
  | Settled nat "fetch_response fetch_result"

definition dispatched :: "agent_state \<times> fetch_request option \<Rightarrow> page \<Rightarrow> page" where
  "dispatched r p =
     (case r of
        (s', None) \<Rightarrow> p\<lparr>state := s'\<rparr>
      | (s', Some rq) \<Rightarrow> p\<lparr>state := s', in_flight := in_flight p @ [rq]\<rparr>)"

fun step :: "event \<Rightarrow> page \<Rightarrow> page" where
  "step (Change v) p = p\<lparr>state := (state p)\<lparr>message := v\<rparr>\<rparr>"
| "step SubmitForm p =
     (if submit_disabled (state p) then p else dispatched (handleSubmit (state p)) p)"
| "step (PromptClick prompt) p =
     (if prompt_disabled (state p) then p
      else (case handlePromptClick prompt (state p) of
              (s', t) \<Rightarrow> p\<lparr>state := s', timers := timers p @ [t]\<rparr>))"
| "step Timeout p =
     (case timers p of
        [] \<Rightarrow> p
      | t # ts \<Rightarrow> dispatched (submitMessage t (state p)) (p\<lparr>timers := ts\<rparr>))"
| "step (PromptMouseOver index) p = p\<lparr>state := handlePromptMouseOver index (state p)\<rparr>"
| "step PromptMouseOut p = p\<lparr>state := handlePromptMouseOut (state p)\<rparr>"
| "step SubmitMouseOver p = p\<lparr>state := (state p)\<lparr>isSubmitHovered := True\<rparr>\<rparr>"
| "step SubmitMouseOut p = p\<lparr>state := (state p)\<lparr>isSubmitHovered := False\<rparr>\<rparr>"
| "step (Settled i result) p =
     (if i < length (in_flight p) then
        p\<lparr>state := settle result (state p),
          in_flight := take i (in_flight p) @ drop (Suc i) (in_flight p)\<rparr>
      else p)"

text \<open>
  The page after the first render and its mount effect, which reads or creates the
  identity pair, and the page after a sequence of events from there.
\<close>

definition mounted :: "string \<Rightarrow> string \<Rightarrow> browser option \<Rightarrow> page" where
  "mounted uuid1 uuid2 w =
     \<lparr>state = fst (initIdentity uuid1 uuid2 w initial_state), timers = [], in_flight = []\<rparr>"

definition run :: "string \<Rightarrow> string \<Rightarrow> browser option \<Rightarrow> event list \<Rightarrow> page" where
  "run uuid1 uuid2 w evs = fold step evs (mounted uuid1 uuid2 w)"

section \<open>Properties of the identity pair\<close>

lemma length_newId: "length (newId uuid) \<le> 32"
  by (simp add: newId_def)

text \<open>
  Claim C7, as the code has it. In a browser, a stored \<open>sessionId\<close> or \<open>userId\<close> that is
  not empty and has at most 32 characters is returned as it is and the storage is left
  alone. A value that is missing, empty, or longer than 32 characters (33, say) is
  replaced: a new identifier of at most 32 characters is returned and stored under the
  same key.
\<close>

theorem identity_read_or_create:
  assumes "sessionStorage b ''sessionId'' = v" and "localStorage b ''userId'' = u"
  shows "(\<forall>s. v = Some s \<and> s \<noteq> [] \<and> length s \<le> 32 \<longrightarrow>
            getSessionId uuid (Some b) = (s, Some b))
       \<and> (v = None \<or> v = Some [] \<or> (\<exists>s. v = Some s \<and> 32 < length s) \<longrightarrow>
            getSessionId uuid (Some b)
              = (newId uuid,
                 Some (b\<lparr>sessionStorage := (sessionStorage b)(''sessionId'' \<mapsto> newId uuid)\<rparr>)))
       \<and> (\<forall>s. u = Some s \<and> s \<noteq> [] \<and> length s \<le> 32 \<longrightarrow>
            getUserId uuid (Some b) = (s, Some b))
       \<and> (u = None \<or> u = Some [] \<or> (\<exists>s. u = Some s \<and> 32 < length s) \<longrightarrow>
            getUserId uuid (Some b)
              = (newId uuid,
                 Some (b\<lparr>localStorage := (localStorage b)(''userId'' \<mapsto> newId uuid)\<rparr>)))
       \<and> length (newId uuid) \<le> 32"
  using assms by (auto simp: getSessionId_def getUserId_def validId_def length_newId Let_def)

theorem identity_read_or_create_witness:
  "getSessionId ''123e4567-e89b-42d3-a456-426614174000''
     (Some \<lparr>sessionStorage = [''sessionId'' \<mapsto> ''0123456789abcdef0123456789abcdef0''],
            localStorage = [''userId'' \<mapsto> ''u1'']\<rparr>)
     = (''123e4567e89b42d3a456426614174000'',
        Some \<lparr>sessionStorage = [''sessionId'' \<mapsto> ''123e4567e89b42d3a456426614174000''],
              localStorage = [''userId'' \<mapsto> ''u1'']\<rparr>)
   \<and> getUserId ''123e4567-e89b-42d3-a456-426614174000''
     (Some \<lparr>sessionStorage = [''sessionId'' \<mapsto> ''0123456789abcdef0123456789abcdef0''],
            localStorage = [''userId'' \<mapsto> ''u1'']\<rparr>)
     = (''u1'',
        Some \<lparr>sessionStorage = [''sessionId'' \<mapsto> ''0123456789abcdef0123456789abcdef0''],
              localStorage = [''userId'' \<mapsto> ''u1'']\<rparr>)
   \<and> getSessionId ''123e4567-e89b-42d3-a456-426614174000''
     (Some \<lparr>sessionStorage = [''sessionId'' \<mapsto> ''s1''], localStorage = Map.empty\<rparr>)
     = (''s1'', Some \<lparr>sessionStorage = [''sessionId'' \<mapsto> ''s1''], localStorage = Map.empty\<rparr>)
   \<and> getUserId ''123e4567-e89b-42d3-a456-426614174000''
     (Some \<lparr>sessionStorage = [''sessionId'' \<mapsto> ''s1''], localStorage = Map.empty\<rparr>)
     = (''123e4567e89b42d3a456426614174000'',
        Some \<lparr>sessionStorage = [''sessionId'' \<mapsto> ''s1''],
              localStorage = [''userId'' \<mapsto> ''123e4567e89b42d3a456426614174000'']\<rparr>)"
proof -
  let ?u = "''123e4567-e89b-42d3-a456-426614174000''"
  let ?b1 = "\<lparr>sessionStorage = [''sessionId'' \<mapsto> ''0123456789abcdef0123456789abcdef0''],
             localStorage = [''userId'' \<mapsto> ''u1'']\<rparr>"
  let ?b2 = "\<lparr>sessionStorage = [''sessionId'' \<mapsto> ''s1''], localStorage = Map.empty\<rparr>"
  have n: "newId ?u = ''123e4567e89b42d3a456426614174000''"
    by (simp add: newId_def)
  have a1: "sessionStorage ?b1 ''sessionId'' = Some ''0123456789abcdef0123456789abcdef0''"
    and a2: "localStorage ?b1 ''userId'' = Some ''u1''"
    and a3: "sessionStorage ?b2 ''sessionId'' = Some ''s1''"
    and a4: "localStorage ?b2 ''userId'' = None"
    by simp_all
  show ?thesis
    using identity_read_or_create [OF a1 a2, of ?u] identity_read_or_create [OF a3 a4, of ?u]
    by (simp add: n)
qed

text \<open>
  Claim C7 as the specification states it says that every stored value of at most 32
  characters comes back unchanged. The empty string is such a value, and it is replaced.
\<close>

theorem stored_empty_id_is_replaced:
  "sessionStorage \<lparr>sessionStorage = [''sessionId'' \<mapsto> []], localStorage = Map.empty\<rparr> ''sessionId''
     = Some []
   \<and> length ([] :: string) \<le> 32
   \<and> fst (getSessionId ''123e4567-e89b-42d3-a456-426614174000''
        (Some \<lparr>sessionStorage = [''sessionId'' \<mapsto> []], localStorage = Map.empty\<rparr>))
     = ''123e4567e89b42d3a456426614174000''
   \<and> fst (getSessionId ''123e4567-e89b-42d3-a456-426614174000''
        (Some \<lparr>sessionStorage = [''sessionId'' \<mapsto> []], localStorage = Map.empty\<rparr>))
     \<noteq> []"
  by (simp add: getSessionId_def validId_def newId_def Let_def)

section \<open>Properties of the relay\<close>

lemma sublist_mid: "sublist b (a @ b @ c)"
  by (metis sublist_appendI)

text \<open>
  Claim C9. Whatever the method, the body and the answer of the upstream service, the
  response of the handler carries the three CORS headers; its status is 200, 405 or 500.
\<close>

theorem cors_headers_on_every_response:
  "headers (fst (handler chatConfig env fetch req)) ''Access-Control-Allow-Origin'' = Some ''*''
   \<and> headers (fst (handler chatConfig env fetch req)) ''Access-Control-Allow-Methods''
       = Some ''POST, OPTIONS''
   \<and> headers (fst (handler chatConfig env fetch req)) ''Access-Control-Allow-Headers''
       = Some ''Content-Type, Authorization''
   \<and> statusCode (fst (handler chatConfig env fetch req)) \<in> {200, 405, 500}"
  by (simp add: handler_def setHeader_def Let_def split: sum.splits)

text \<open>
  Claim C1, as the code has it. On a \<open>POST\<close> for which \<open>fetch\<close> throws, or answers with
  a status outside 200..299, the handler responds 500 with the body
  \<open>{error: "Internal Server Error", details}\<close>, and \<open>details\<close> is the message of the error
  thrown: that of \<open>fetch\<close> when it threw; \<open>Zerowidth API error <status>: <text>\<close>, which
  contains both the status and the text, when the upstream answered and its body text
  was read; that of \<open>text()\<close> alone when reading the body text threw. The upstream
  status is never the status of the response.
\<close>

theorem relay_failure_is_500:
  assumes "req_method req = ''POST''"
      and "fetch (upstream_request chatConfig env (req_body req)) = result"
      and "\<forall>r. result = Resolved r \<longrightarrow> \<not> ok r"
  shows "\<exists>details.
           statusCode (fst (handler chatConfig env fetch req)) = 500
         \<and> sent (fst (handler chatConfig env fetch req))
             = Some (JObj [(''error'', JStr ''Internal Server Error''),
                           (''details'', JStr details)])
         \<and> (\<forall>msg. result = Rejected msg \<longrightarrow> details = msg)
         \<and> (\<forall>r msg. result = Resolved r \<and> body_text r = Inl msg \<longrightarrow> details = msg)
         \<and> (\<forall>r errorText. result = Resolved r \<and> body_text r = Inr errorText \<longrightarrow>
               details = ''Zerowidth API error '' @ Number_toString (status r) @ '': '' @ errorText
             \<and> sublist (Number_toString (status r)) details
             \<and> sublist errorText details)"
proof (cases result)
  case (Rejected msg)
  with assms show ?thesis
    by (simp add: handler_def forward_def Let_def)
next
  case (Resolved r)
  with assms have nok: "\<not> ok r" by simp
  show ?thesis
  proof (cases "body_text r")
    case (Inl msg)
    with assms Resolved nok show ?thesis
      by (simp add: handler_def forward_def Let_def)
  next
    case (Inr errorText)
    have s1: "sublist (Number_toString (status r))
                (''Zerowidth API error '' @ Number_toString (status r) @ '': '' @ errorText)"
      by (rule sublist_mid)
    have s2: "sublist errorText
                (''Zerowidth API error '' @ Number_toString (status r) @ '': '' @ errorText)"
      using sublist_mid [of errorText "''Zerowidth API error '' @ Number_toString (status r) @ '': ''" "[]"]
      by simp
    from assms Resolved nok Inr s1 s2 show ?thesis
      by (simp add: handler_def forward_def Let_def)
  qed
qed

theorem relay_failure_is_500_witness:
  "statusCode (fst (handler \<lparr>flowURL = Some ''https://upstream''\<rparr> \<lparr>ZEROWIDTH_API_KEY = Some ''k''\<rparr>
        (\<lambda>rq. Resolved \<lparr>status = 503, body_json = Inl ''Unexpected token d'',
                         body_text = Inr ''down''\<rparr>)
        \<lparr>req_method = ''POST'', req_body = Some JNull\<rparr>)) = 500
   \<and> sent (fst (handler \<lparr>flowURL = Some ''https://upstream''\<rparr> \<lparr>ZEROWIDTH_API_KEY = Some ''k''\<rparr>
        (\<lambda>rq. Resolved \<lparr>status = 503, body_json = Inl ''Unexpected token d'',
                         body_text = Inr ''down''\<rparr>)
        \<lparr>req_method = ''POST'', req_body = Some JNull\<rparr>))
     = Some (JObj [(''error'', JStr ''Internal Server Error''),
                   (''details'', JStr ''Zerowidth API error 503: down'')])
   \<and> statusCode (fst (handler \<lparr>flowURL = Some ''https://upstream''\<rparr> \<lparr>ZEROWIDTH_API_KEY = Some ''k''\<rparr>
        (\<lambda>rq. Rejected ''fetch failed'')
        \<lparr>req_method = ''POST'', req_body = Some JNull\<rparr>)) = 500
   \<and> sent (fst (handler \<lparr>flowURL = Some ''https://upstream''\<rparr> \<lparr>ZEROWIDTH_API_KEY = Some ''k''\<rparr>
        (\<lambda>rq. Rejected ''fetch failed'')
        \<lparr>req_method = ''POST'', req_body = Some JNull\<rparr>))
     = Some (JObj [(''error'', JStr ''Internal Server Error''),
                   (''details'', JStr ''fetch failed'')])
   \<and> sent (fst (handler \<lparr>flowURL = Some ''https://upstream''\<rparr> \<lparr>ZEROWIDTH_API_KEY = Some ''k''\<rparr>
        (\<lambda>rq. Resolved \<lparr>status = 502, body_json = Inl ''terminated'',
                         body_text = Inl ''terminated''\<rparr>)
        \<lparr>req_method = ''POST'', req_body = Some JNull\<rparr>))
     = Some (JObj [(''error'', JStr ''Internal Server Error''),
                   (''details'', JStr ''terminated'')])"
proof -
  let ?c = "\<lparr>flowURL = Some ''https://upstream''\<rparr>"
  let ?e = "\<lparr>ZEROWIDTH_API_KEY = Some ''k''\<rparr>"
  let ?req = "\<lparr>req_method = ''POST'', req_body = Some JNull\<rparr>"
  let ?r = "\<lparr>status = 503, body_json = Inl ''Unexpected token d'', body_text = Inr ''down''\<rparr>"
  let ?r3 = "\<lparr>status = 502, body_json = Inl ''terminated'', body_text = Inl ''terminated''\<rparr>"
  let ?f1 = "\<lambda>rq :: fetch_request. Resolved ?r"
  let ?f2 = "\<lambda>rq :: fetch_request. Rejected ''fetch failed'' :: upstream_response fetch_result"
  let ?f3 = "\<lambda>rq :: fetch_request. Resolved ?r3"
  have m: "req_method ?req = ''POST''" by simp
  have r1: "?f1 (upstream_request ?c ?e (req_body ?req)) = Resolved ?r" by simp
  have r2: "?f2 (upstream_request ?c ?e (req_body ?req)) = Rejected ''fetch failed''" by simp
  have r3: "?f3 (upstream_request ?c ?e (req_body ?req)) = Resolved ?r3" by simp
  have n1: "\<forall>r. Resolved ?r = Resolved r \<longrightarrow> \<not> ok r" by (simp add: ok_def)
  have n2: "\<forall>r :: upstream_response. Rejected ''fetch failed'' = Resolved r \<longrightarrow> \<not> ok r" by simp
  have n3: "\<forall>r. Resolved ?r3 = Resolved r \<longrightarrow> \<not> ok r" by (simp add: ok_def)
  have d: "Number_toString 503 = ''503''" by code_simp
  from relay_failure_is_500 [OF m r1 n1] relay_failure_is_500 [OF m r2 n2]
       relay_failure_is_500 [OF m r3 n3]
  show ?thesis by (auto simp: d)
qed

text \<open>
  Claim C1 as the specification states it has the upstream status and body text in
  \<open>details\<close> whenever the upstream responded. An upstream that answers 502 and breaks off
  before its body is read has responded; \<open>details\<close> is then the message of the read
  error, without the status.
\<close>

theorem relay_failure_without_body_text:
  "\<not> ok \<lparr>status = 502, body_json = Inl ''terminated'', body_text = Inl ''terminated''\<rparr>
   \<and> sent (fst (handler \<lparr>flowURL = Some ''https://upstream''\<rparr> \<lparr>ZEROWIDTH_API_KEY = Some ''k''\<rparr>
        (\<lambda>rq. Resolved \<lparr>status = 502, body_json = Inl ''terminated'',
                         body_text = Inl ''terminated''\<rparr>)
        \<lparr>req_method = ''POST'', req_body = Some JNull\<rparr>))
     = Some (JObj [(''error'', JStr ''Internal Server Error''),
                   (''details'', JStr ''terminated'')])
   \<and> Number_toString 502 = ''502''
   \<and> \<not> sublist ''502'' ''terminated''"
proof -
  have d: "Number_toString 502 = ''502''" by code_simp
  have n: "\<not> sublist ''502'' ''terminated''" by code_simp
  show ?thesis
    by (simp add: handler_def forward_def ok_def Let_def d n)
qed

lemma JSON_roundtrip_plain: "plain v \<Longrightarrow> JSON_roundtrip v = v"
proof (induction v)
  case (JNum n)
  then show ?case by (cases n) simp_all
next
  case (JArr xs)
  then have "\<forall>x \<in> set xs. JSON_roundtrip x = x" by (auto simp: list_all_iff)
  then show ?case by (simp add: map_idI)
next
  case (JObj ms)
  have "map (map_prod id JSON_roundtrip) ms = ms"
  proof (rule map_idI)
    fix kv assume kv: "kv \<in> set ms"
    obtain k v where e: "kv = (k, v)" by (cases kv)
    with kv JObj.prems have "plain v" by (force simp: list_all_iff)
    moreover from kv e have "v \<in> Basic_BNFs.snds kv" by simp
    ultimately have "JSON_roundtrip v = v" using JObj.IH kv by blast
    with e show "map_prod id JSON_roundtrip kv = kv" by simp
  qed
  then show ?case by simp
qed simp_all

text \<open>
  Claim C8, as the code has it. The upstream has answered a \<open>POST\<close> with a status in
  200..299. If its body parses as JSON, the handler responds 200, whatever the upstream
  status was, and hands the parsed value to \<open>res.json\<close>; the caller reads it as it was,
  provided it holds no \<open>Infinity\<close>, \<open>-Infinity\<close> or \<open>-0\<close>. If its body does not parse as
  JSON, the handler responds 500 with the message of the parse error in \<open>details\<close>.
\<close>

theorem relay_success_is_200:
  assumes "req_method req = ''POST''"
      and "fetch (upstream_request chatConfig env (req_body req)) = Resolved r"
      and "ok r"
  shows "(\<forall>data. body_json r = Inr data \<longrightarrow>
            statusCode (fst (handler chatConfig env fetch req)) = 200
          \<and> sent (fst (handler chatConfig env fetch req)) = Some data
          \<and> delivered (fst (handler chatConfig env fetch req)) = Some (JSON_roundtrip data)
          \<and> (plain data \<longrightarrow> delivered (fst (handler chatConfig env fetch req)) = Some data))
       \<and> (\<forall>msg. body_json r = Inl msg \<longrightarrow>
            statusCode (fst (handler chatConfig env fetch req)) = 500
          \<and> sent (fst (handler chatConfig env fetch req))
              = Some (JObj [(''error'', JStr ''Internal Server Error''),
                            (''details'', JStr msg)]))"
  using assms
  by (simp add: handler_def forward_def delivered_def JSON_roundtrip_plain Let_def)

theorem relay_success_is_200_witness:
  "statusCode (fst (handler \<lparr>flowURL = Some ''https://upstream''\<rparr> \<lparr>ZEROWIDTH_API_KEY = Some ''k''\<rparr>
        (\<lambda>rq. Resolved \<lparr>status = 201, body_json = Inr (JBool True), body_text = Inr ''true''\<rparr>)
        \<lparr>req_method = ''POST'', req_body = Some JNull\<rparr>)) = 200
   \<and> delivered (fst (handler \<lparr>flowURL = Some ''https://upstream''\<rparr> \<lparr>ZEROWIDTH_API_KEY = Some ''k''\<rparr>
        (\<lambda>rq. Resolved \<lparr>status = 201, body_json = Inr (JBool True), body_text = Inr ''true''\<rparr>)
        \<lparr>req_method = ''POST'', req_body = Some JNull\<rparr>)) = Some (JBool True)
   \<and> statusCode (fst (handler \<lparr>flowURL = Some ''https://upstream''\<rparr> \<lparr>ZEROWIDTH_API_KEY = Some ''k''\<rparr>
        (\<lambda>rq. Resolved \<lparr>status = 200, body_json = Inl ''Unexpected token < in JSON'',
                         body_text = Inr ''<html>''\<rparr>)
        \<lparr>req_method = ''POST'', req_body = Some JNull\<rparr>)) = 500"
proof -
  let ?c = "\<lparr>flowURL = Some ''https://upstream''\<rparr>"
  let ?e = "\<lparr>ZEROWIDTH_API_KEY = Some ''k''\<rparr>"
  let ?req = "\<lparr>req_method = ''POST'', req_body = Some JNull\<rparr>"
  let ?r1 = "\<lparr>status = 201, body_json = Inr (JBool True), body_text = Inr ''true''\<rparr>"
  let ?r2 = "\<lparr>status = 200, body_json = Inl ''Unexpected token < in JSON'',
              body_text = Inr ''<html>''\<rparr>"
  let ?f1 = "\<lambda>rq :: fetch_request. Resolved ?r1"
  let ?f2 = "\<lambda>rq :: fetch_request. Resolved ?r2"
  have m: "req_method ?req = ''POST''" by simp
  have a1: "?f1 (upstream_request ?c ?e (req_body ?req)) = Resolved ?r1" by simp
  have a2: "?f2 (upstream_request ?c ?e (req_body ?req)) = Resolved ?r2" by simp
  have k1: "ok ?r1" and k2: "ok ?r2" by (simp_all add: ok_def)
  have p: "plain (JBool True)" by simp
  from relay_success_is_200 [OF m a1 k1] relay_success_is_200 [OF m a2 k2] p
  show ?thesis by simp
qed

text \<open>
  Claim C8 as the specification states it promises status 200 and the unmodified body
  for every upstream status in 200..299. An upstream 204 has no body to parse:
  \<open>response.json()\<close> throws and the handler responds 500. An upstream body \<open>1e400\<close> parses
  to \<open>Infinity\<close>, which \<open>res.json\<close> writes as \<open>null\<close>.
\<close>

theorem relay_success_is_not_always_200_unmodified:
  "ok \<lparr>status = 204, body_json = Inl ''Unexpected end of JSON input'', body_text = Inr []\<rparr>
   \<and> statusCode (fst (handler \<lparr>flowURL = Some ''https://upstream''\<rparr> \<lparr>ZEROWIDTH_API_KEY = Some ''k''\<rparr>
        (\<lambda>rq. Resolved \<lparr>status = 204, body_json = Inl ''Unexpected end of JSON input'',
                         body_text = Inr []\<rparr>)
        \<lparr>req_method = ''POST'', req_body = Some JNull\<rparr>)) = 500
   \<and> ok \<lparr>status = 200, body_json = Inr (JNum PosInfinity), body_text = Inr ''1e400''\<rparr>
   \<and> delivered (fst (handler \<lparr>flowURL = Some ''https://upstream''\<rparr> \<lparr>ZEROWIDTH_API_KEY = Some ''k''\<rparr>
        (\<lambda>rq. Resolved \<lparr>status = 200, body_json = Inr (JNum PosInfinity),
                         body_text = Inr ''1e400''\<rparr>)
        \<lparr>req_method = ''POST'', req_body = Some JNull\<rparr>)) = Some JNull
   \<and> JNull \<noteq> JNum PosInfinity"
  by (simp add: handler_def forward_def delivered_def ok_def Let_def)

section \<open>Properties of the component\<close>

lemma trimStart_Nil: "trimStart s = [] \<longleftrightarrow> (\<forall>c \<in> set s. isWhiteSpace c)"
  by (simp add: trimStart_def)

lemma trimEnd_Nil: "trimEnd s = [] \<longleftrightarrow> (\<forall>c \<in> set s. isWhiteSpace c)"
  by (simp add: trimEnd_def)

lemma hd_trimStart: "trimStart s \<noteq> [] \<Longrightarrow> \<not> isWhiteSpace (hd (trimStart s))"
  unfolding trimStart_def by (rule hd_dropWhile)

lemma trim_Nil: "trim s = [] \<longleftrightarrow> (\<forall>c \<in> set s. isWhiteSpace c)"
proof
  assume "trim s = []"
  then have all: "\<forall>c \<in> set (trimStart s). isWhiteSpace c"
    by (simp add: trim_def trimEnd_Nil)
  have "trimStart s = []"
  proof (rule ccontr)
    assume ne: "trimStart s \<noteq> []"
    then have "hd (trimStart s) \<in> set (trimStart s)" by simp
    with all hd_trimStart [OF ne] show False by blast
  qed
  then show "\<forall>c \<in> set s. isWhiteSpace c" by (simp add: trimStart_Nil)
next
  assume "\<forall>c \<in> set s. isWhiteSpace c"
  then have "trimStart s = []" by (simp add: trimStart_Nil)
  then show "trim s = []" by (simp add: trim_def trimEnd_def)
qed

lemma trimEnd_split:
  "s = trimEnd s @ rev (takeWhile isWhiteSpace (rev s))"
proof -
  have "trimEnd s @ rev (takeWhile isWhiteSpace (rev s))
          = rev (takeWhile isWhiteSpace (rev s) @ dropWhile isWhiteSpace (rev s))"
    by (simp only: trimEnd_def rev_append)
  also have "\<dots> = s"
    by (simp only: takeWhile_dropWhile_id rev_rev_ident)
  finally show ?thesis by simp
qed

lemma trim_split:
  "s = takeWhile isWhiteSpace s @ trim s @ rev (takeWhile isWhiteSpace (rev (trimStart s)))"
proof -
  have "s = takeWhile isWhiteSpace s @ trimStart s" by (simp add: trimStart_def)
  also have "trimStart s = trim s @ rev (takeWhile isWhiteSpace (rev (trimStart s)))"
    unfolding trim_def by (rule trimEnd_split)
  finally show ?thesis .
qed

lemma last_trimEnd: "trimEnd s \<noteq> [] \<Longrightarrow> \<not> isWhiteSpace (last (trimEnd s))"
proof -
  assume "trimEnd s \<noteq> []"
  then have ne: "dropWhile isWhiteSpace (rev s) \<noteq> []" by (simp add: trimEnd_def)
  have "last (trimEnd s) = hd (dropWhile isWhiteSpace (rev s))"
    using ne by (simp add: trimEnd_def last_rev)
  with hd_dropWhile [OF ne] show ?thesis by simp
qed

lemma hd_trimEnd: "trimEnd s \<noteq> [] \<Longrightarrow> hd (trimEnd s) = hd s"
proof -
  assume ne: "trimEnd s \<noteq> []"
  have "s = trimEnd s @ rev (takeWhile isWhiteSpace (rev s))" by (rule trimEnd_split)
  then have "hd s = hd (trimEnd s @ rev (takeWhile isWhiteSpace (rev s)))" by simp
  with ne show ?thesis by simp
qed

lemma trim_ends:
  assumes "trim s \<noteq> []"
  shows "\<not> isWhiteSpace (hd (trim s))" and "\<not> isWhiteSpace (last (trim s))"
proof -
  from assms have ne: "trimStart s \<noteq> []" by (auto simp: trim_def trimEnd_def)
  from assms have "hd (trim s) = hd (trimStart s)" unfolding trim_def by (rule hd_trimEnd)
  with hd_trimStart [OF ne] show "\<not> isWhiteSpace (hd (trim s))" by simp
  from assms show "\<not> isWhiteSpace (last (trim s))" unfolding trim_def by (rule last_trimEnd)
qed

lemma submitMessage_blank: "trim userInput = [] \<Longrightarrow> submitMessage userInput s = (s, None)"
  by (simp add: submitMessage_def)

lemma submitMessage_sends:
  "trim userInput \<noteq> [] \<Longrightarrow>
   submitMessage userInput s =
     (s\<lparr>message := [], error := None,
        conversation := conversation s @ [\<lparr>role = ''user'', content = JStr (trim userInput)\<rparr>],
        isLoading := True\<rparr>,
      Some (proxy_request (payload \<lparr>role = ''user'', content = JStr (trim userInput)\<rparr> (userId s) (sessionId s))))"
  by (simp add: submitMessage_def Let_def)

lemma handleSubmit2_sends:
  "trim (message s) \<noteq> [] \<Longrightarrow>
   handleSubmit2 s =
     (s\<lparr>error := None,
        conversation := conversation s @ [\<lparr>role = ''user'', content = JStr (trim (message s))\<rparr>],
        isLoading := True\<rparr>,
      Some (proxy_request (payload \<lparr>role = ''user'', content = JStr (trim (message s))\<rparr>
              ''userID_RandomID'' ''sessionID_RandomID'')))"
  by (simp add: handleSubmit2_def Let_def)

lemma isLoading_settle: "isLoading (settle result s) = False"
  by (simp add: settle_def Let_def)


lemma try_block_not_ok:
  "\<not> ok res \<Longrightarrow> try_block (Resolved res) s = Inl (''Server error: '' @ Number_toString (status res))"
  by (simp add: try_block_def)

lemma settle_not_ok:
  "\<not> ok res \<Longrightarrow>
   settle (Resolved res) s
     = s\<lparr>error := Some (''Server error: '' @ Number_toString (status res)), isLoading := False\<rparr>"
  by (simp add: settle_def try_block_not_ok)

text \<open>
  Claim C4. In a turn of the first component whose request the relay answers with a
  status outside 200..299, the conversation gains the user's message and nothing else,
  and the error becomes \<open>Server error: <status>\<close>: not empty, and containing the status.
\<close>

theorem relay_error_turn:
  assumes "trim userInput \<noteq> []"
      and "fetch (proxy_request (payload \<lparr>role = ''user'', content = JStr (trim userInput)\<rparr>
                    (userId s) (sessionId s))) = Resolved res"
      and "\<not> ok res"
  shows "conversation (submit_turn fetch userInput s)
           = conversation s @ [\<lparr>role = ''user'', content = JStr (trim userInput)\<rparr>]
       \<and> error (submit_turn fetch userInput s)
           = Some (''Server error: '' @ Number_toString (status res))
       \<and> ''Server error: '' @ Number_toString (status res) \<noteq> []
       \<and> sublist (Number_toString (status res))
           (''Server error: '' @ Number_toString (status res))"
proof -
  have "sublist (Number_toString (status res))
          (''Server error: '' @ Number_toString (status res) @ [])"
    by (rule sublist_mid)
  with assms show ?thesis
    by (simp add: submit_turn_def submitMessage_sends settle_not_ok)
qed

theorem relay_error_turn_witness:
  "conversation (submit_turn
      (\<lambda>rq. Resolved \<lparr>status = 500, body_json = Inr (JObj [(''error'', JStr ''Internal Server Error''), (''details'', JStr ''fetch failed'')])\<rparr>)
      '' hi '' initial_state)
     = [\<lparr>role = ''user'', content = JStr ''hi''\<rparr>]
   \<and> error (submit_turn
      (\<lambda>rq. Resolved \<lparr>status = 500, body_json = Inr (JObj [(''error'', JStr ''Internal Server Error''), (''details'', JStr ''fetch failed'')])\<rparr>)
      '' hi '' initial_state)
     = Some ''Server error: 500''
   \<and> sublist ''500'' ''Server error: 500''"
proof -
  let ?res = "\<lparr>status = 500, body_json = Inr (JObj [(''error'', JStr ''Internal Server Error''), (''details'', JStr ''fetch failed'')])\<rparr>"
  let ?f = "\<lambda>rq :: fetch_request. Resolved ?res"
  have t: "trim '' hi '' = ''hi''"
    by (simp add: trim_def trimStart_def trimEnd_def isWhiteSpace_def)
  have a: "trim '' hi '' \<noteq> []" by (simp add: t)
  have b: "?f (proxy_request (payload \<lparr>role = ''user'', content = JStr (trim '' hi '')\<rparr>
                 (userId initial_state) (sessionId initial_state))) = Resolved ?res"
    by simp
  have c: "\<not> ok ?res" by (simp add: ok_def)
  have d: "Number_toString 500 = ''500''" by code_simp
  from relay_error_turn [OF a b c] show ?thesis
    by (simp add: t d initial_state_def)
qed

lemma handleSubmit2_blank:
  "trim (message s) = [] \<Longrightarrow> handleSubmit2 s = (s\<lparr>error := None\<rparr>, None)"
  by (simp add: handleSubmit2_def)

text \<open>
  Claim C2 says that submitting a blank input changes nothing, the error included.
  \<open>submitMessage\<close> of the first component does return before it touches the state
  (\<open>submitMessage_blank\<close>). \<open>handleSubmit\<close> of the second component clears the error
  before it tests the input (\<open>handleSubmit2_blank\<close>). There, a turn answered with 500
  leaves the error showing; the input is then replaced by three spaces and submitted:
  nothing is sent, the conversation, the input and the busy flag stay, and the error
  is gone.
\<close>

theorem blank_submit_clears_error:
  "settle (Resolved \<lparr>status = 500,
                     body_json = Inr (JObj [(''error'', JStr ''Internal Server Error''),
                                            (''details'', JStr ''fetch failed'')])\<rparr>)
     (fst (handleSubmit2 \<lparr>message = ''hi'', conversation = [], error = None,
                           isLoading = False\<rparr>))
     = \<lparr>message = ''hi'', conversation = [\<lparr>role = ''user'', content = JStr ''hi''\<rparr>],
        error = Some ''Server error: 500'', isLoading = False\<rparr>
   \<and> trim ''   '' = []
   \<and> handleSubmit2 \<lparr>message = ''   '',
                     conversation = [\<lparr>role = ''user'', content = JStr ''hi''\<rparr>],
                     error = Some ''Server error: 500'', isLoading = False\<rparr>
     = (\<lparr>message = ''   '', conversation = [\<lparr>role = ''user'', content = JStr ''hi''\<rparr>],
         error = None, isLoading = False\<rparr>, None)"
proof -
  have d: "Number_toString 500 = ''500''" by code_simp
  have t: "trim ''hi'' = ''hi''" "trim ''   '' = []"
    by (simp_all add: trim_def trimStart_def trimEnd_def isWhiteSpace_def)
  show ?thesis
    by (simp add: handleSubmit2_def settle_def try_block_def ok_def t d Let_def)
qed


lemma settle_reply:
  "ok res \<Longrightarrow> body_json res = Inr data \<Longrightarrow> agentReply data = Inr reply \<Longrightarrow>
   settle (Resolved res) s
     = s\<lparr>conversation := conversation s @ [\<lparr>role = ''agent'', content = reply\<rparr>],
         message := [], isLoading := False\<rparr>"
  by (simp add: settle_def try_block_def Let_def)

lemma agentReply_content:
  "getProp data ''output_data'' = Inr (Some od) \<Longrightarrow>
   getProp od ''content'' = Inr (Some (JStr X)) \<Longrightarrow> X \<noteq> [] \<Longrightarrow>
   agentReply data = Inr (JStr X)"
  by (cases od) (auto simp: agentReply_def getPropU_def getProp_def)

lemma agentReply_fallback:
  assumes "data \<noteq> JNull"
      and "\<forall>od c. getProp data ''output_data'' = Inr (Some od)
                  \<and> getProp od ''content'' = Inr (Some c) \<longrightarrow> c = JStr []"
  shows "agentReply data = Inr (JStr ''No valid response received from agent.'')"
proof (cases "getProp data ''output_data''")
  case (Inl e)
  with assms(1) show ?thesis by (cases data) (simp_all add: getProp_def)
next
  case (Inr output_data)
  show ?thesis
  proof (cases output_data)
    case None
    with Inr show ?thesis by (simp add: agentReply_def)
  next
    case (Some od)
    show ?thesis
    proof (cases "truthy (Some od)")
      case False
      with Inr Some show ?thesis by (simp add: agentReply_def)
    next
      case True
      then have "od \<noteq> JNull" by auto
      then obtain c where c: "getProp od ''content'' = Inr c"
        by (cases od) (simp_all add: getProp_def)
      show ?thesis
      proof (cases c)
        case None
        with Inr Some True c show ?thesis by (simp add: agentReply_def getPropU_def)
      next
        case (Some v)
        with assms(2) Inr \<open>output_data = Some od\<close> c have "v = JStr []" by blast
        with Inr \<open>output_data = Some od\<close> True c Some show ?thesis
          by (simp add: agentReply_def getPropU_def)
      qed
    qed
  qed
qed

text \<open>
  Claim C3, as the code has it. The relay has answered with a status in 200..299 and
  a body that parses as JSON. If the body holds a string \<open>X\<close> at
  \<open>output_data.content\<close> and \<open>X\<close> is not empty, one agent message with content \<open>X\<close> is
  appended. If the body is not \<open>null\<close> and holds nothing at \<open>output_data.content\<close>, or the
  empty string, one agent message with the fallback text is appended.
\<close>

theorem agent_reply_appended:
  assumes "ok res" and "body_json res = Inr data"
  shows "(\<forall>od X. getProp data ''output_data'' = Inr (Some od)
                \<and> getProp od ''content'' = Inr (Some (JStr X)) \<and> X \<noteq> [] \<longrightarrow>
            conversation (settle (Resolved res) s)
              = conversation s @ [\<lparr>role = ''agent'', content = JStr X\<rparr>])
       \<and> (data \<noteq> JNull
          \<and> (\<forall>od c. getProp data ''output_data'' = Inr (Some od)
                    \<and> getProp od ''content'' = Inr (Some c) \<longrightarrow> c = JStr []) \<longrightarrow>
            conversation (settle (Resolved res) s)
              = conversation s
                @ [\<lparr>role = ''agent'', content = JStr ''No valid response received from agent.''\<rparr>])"
proof (intro conjI allI impI)
  fix od X
  assume "getProp data ''output_data'' = Inr (Some od)
          \<and> getProp od ''content'' = Inr (Some (JStr X)) \<and> X \<noteq> []"
  then have "agentReply data = Inr (JStr X)" by (simp add: agentReply_content)
  with assms show "conversation (settle (Resolved res) s)
                     = conversation s @ [\<lparr>role = ''agent'', content = JStr X\<rparr>]"
    by (simp add: settle_reply)
next
  assume "data \<noteq> JNull
          \<and> (\<forall>od c. getProp data ''output_data'' = Inr (Some od)
                    \<and> getProp od ''content'' = Inr (Some c) \<longrightarrow> c = JStr [])"
  then have "agentReply data = Inr (JStr ''No valid response received from agent.'')"
    using agentReply_fallback [of data] by blast
  with assms show "conversation (settle (Resolved res) s)
                     = conversation s
                       @ [\<lparr>role = ''agent'', content = JStr ''No valid response received from agent.''\<rparr>]"
    by (simp add: settle_reply)
qed

theorem agent_reply_appended_witness:
  "conversation (settle
      (Resolved \<lparr>status = 200,
                 body_json = Inr (JObj [(''output_data'', JObj [(''content'', JStr ''hello'')])])\<rparr>)
      initial_state)
     = [\<lparr>role = ''agent'', content = JStr ''hello''\<rparr>]
   \<and> conversation (settle
      (Resolved \<lparr>status = 200, body_json = Inr (JObj [(''output_data'', JObj [])])\<rparr>)
      initial_state)
     = [\<lparr>role = ''agent'', content = JStr ''No valid response received from agent.''\<rparr>]"
proof -
  let ?d1 = "JObj [(''output_data'', JObj [(''content'', JStr ''hello'')])]"
  let ?d2 = "JObj [(''output_data'', JObj [])]"
  let ?r1 = "\<lparr>status = 200, body_json = Inr ?d1\<rparr>"
  let ?r2 = "\<lparr>status = 200, body_json = Inr ?d2\<rparr>"
  have k1: "ok ?r1" and k2: "ok ?r2" by (simp_all add: ok_def)
  have j1: "body_json ?r1 = Inr ?d1" and j2: "body_json ?r2 = Inr ?d2" by simp_all
  have p1: "getProp ?d1 ''output_data'' = Inr (Some (JObj [(''content'', JStr ''hello'')]))
            \<and> getProp (JObj [(''content'', JStr ''hello'')]) ''content'' = Inr (Some (JStr ''hello''))
            \<and> ''hello'' \<noteq> []"
    by (simp add: getProp_def)
  have p2: "?d2 \<noteq> JNull
            \<and> (\<forall>od c. getProp ?d2 ''output_data'' = Inr (Some od)
                      \<and> getProp od ''content'' = Inr (Some c) \<longrightarrow> c = JStr [])"
    by (auto simp: getProp_def)
  from agent_reply_appended [OF k1 j1, of initial_state] p1
  have c1: "conversation (settle (Resolved ?r1) initial_state)
              = conversation initial_state @ [\<lparr>role = ''agent'', content = JStr ''hello''\<rparr>]"
    by blast
  from agent_reply_appended [OF k2 j2, of initial_state] p2
  have c2: "conversation (settle (Resolved ?r2) initial_state)
              = conversation initial_state
                @ [\<lparr>role = ''agent'', content = JStr ''No valid response received from agent.''\<rparr>]"
    by blast
  from c1 c2 show ?thesis by (simp add: initial_state_def)
qed

text \<open>
  Claim C3 as the specification states it holds for every string \<open>X\<close> and every body
  without \<open>output_data.content\<close>. For the empty string the fallback text is appended, not
  \<open>X\<close>: the test is on truthiness. For the body \<open>null\<close> nothing is appended: reading
  \<open>output_data\<close> of \<open>null\<close> throws.
\<close>

theorem empty_or_null_reply:
  "conversation (settle
      (Resolved \<lparr>status = 200,
                 body_json = Inr (JObj [(''output_data'', JObj [(''content'', JStr [])])])\<rparr>)
      initial_state)
     = [\<lparr>role = ''agent'', content = JStr ''No valid response received from agent.''\<rparr>]
   \<and> conversation (settle (Resolved \<lparr>status = 200, body_json = Inr JNull\<rparr>) initial_state) = []"
  by (simp add: settle_def try_block_def agentReply_def getProp_def getPropU_def ok_def
        initial_state_def Let_def)

section \<open>The busy flag, the envelope and the user message\<close>

text \<open>
  Submits of the form do not overlap: the button is disabled from the submit to the
  settling, and while no prompt is clicked \<open>isLoading\<close> is true exactly when a request is
  in flight.
\<close>

lemma step_form_busy:
  assumes inv: "timers p = [] \<and> length (in_flight p) \<le> 1
                \<and> (isLoading (state p) \<longleftrightarrow> in_flight p \<noteq> [])"
      and e: "\<forall>prompt. e \<noteq> PromptClick prompt"
  shows "timers (step e p) = [] \<and> length (in_flight (step e p)) \<le> 1
         \<and> (isLoading (state (step e p)) \<longleftrightarrow> in_flight (step e p) \<noteq> [])"
proof (cases e)
  case (Change v)
  with inv show ?thesis by simp
next
  case SubmitForm
  show ?thesis
  proof (cases "isLoading (state p)")
    case True
    with inv SubmitForm show ?thesis by (simp add: submit_disabled_def)
  next
    case False
    with inv have q: "in_flight p = []" by simp
    show ?thesis
    proof (cases "trim (message (state p)) = []")
      case True
      with inv q False SubmitForm show ?thesis
        by (simp add: submit_disabled_def handleSubmit_def submitMessage_blank dispatched_def)
    next
      case nonblank: False
      with inv q SubmitForm \<open>\<not> isLoading (state p)\<close> show ?thesis
        by (simp add: submit_disabled_def handleSubmit_def submitMessage_sends dispatched_def)
    qed
  qed
next
  case (PromptClick prompt)
  with e show ?thesis by simp
next
  case Timeout
  with inv show ?thesis by simp
next
  case (PromptMouseOver index)
  with inv show ?thesis by (simp add: handlePromptMouseOver_def)
next
  case PromptMouseOut
  with inv show ?thesis by (simp add: handlePromptMouseOut_def)
next
  case SubmitMouseOver
  with inv show ?thesis by simp
next
  case SubmitMouseOut
  with inv show ?thesis by simp
next
  case (Settled i result)
  show ?thesis
  proof (cases "i < length (in_flight p)")
    case True
    with inv have "i = 0" and "length (in_flight p) = 1" by simp_all
    with inv Settled True show ?thesis by (simp add: isLoading_settle)
  next
    case False
    with inv Settled show ?thesis by simp
  qed
qed

lemma form_submits_do_not_overlap:
  assumes "\<forall>prompt. PromptClick prompt \<notin> set evs"
  shows "isLoading (state (run uuid1 uuid2 w evs)) \<longleftrightarrow> in_flight (run uuid1 uuid2 w evs) \<noteq> []"
proof -
  have "timers p = [] \<and> length (in_flight p) \<le> 1
          \<and> (isLoading (state p) \<longleftrightarrow> in_flight p \<noteq> []) \<Longrightarrow>
        \<forall>prompt. PromptClick prompt \<notin> set evs \<Longrightarrow>
        timers (fold step evs p) = [] \<and> length (in_flight (fold step evs p)) \<le> 1
          \<and> (isLoading (state (fold step evs p)) \<longleftrightarrow> in_flight (fold step evs p) \<noteq> [])"
    for p
  proof (induction evs arbitrary: p)
    case Nil
    then show ?case by simp
  next
    case (Cons e evs)
    from Cons.prems(2) have e: "\<forall>prompt. e \<noteq> PromptClick prompt" by auto
    from Cons.prems(2) have rest: "\<forall>prompt. PromptClick prompt \<notin> set evs" by auto
    from step_form_busy [OF Cons.prems(1) e] rest show ?case
      using Cons.IH [of "step e p"] by simp
  qed
  moreover have "timers (mounted uuid1 uuid2 w) = [] \<and> length (in_flight (mounted uuid1 uuid2 w)) \<le> 1
          \<and> (isLoading (state (mounted uuid1 uuid2 w)) \<longleftrightarrow> in_flight (mounted uuid1 uuid2 w) \<noteq> [])"
    by (simp add: mounted_def initIdentity_def initial_state_def Let_def split: prod.splits)
  ultimately show ?thesis using assms unfolding run_def by blast
qed

lemma trim_prompt1: "trim ''I am anxious about the future.'' = ''I am anxious about the future.''"
  by (simp add: trim_def trimStart_def trimEnd_def isWhiteSpace_def)

lemma trim_prompt2:
  "trim ''I spend too much time with computers.'' = ''I spend too much time with computers.''"
  by (simp add: trim_def trimStart_def trimEnd_def isWhiteSpace_def)

text \<open>
  Claim C5 says that \<open>isLoading\<close> is true from the sending of a request to its settling
  and that the submit button is enabled exactly when it is false. A click on a prompt
  submits from a timer, and the timer does not look at \<open>isLoading\<close>. After the mount
  effect, two prompts are clicked before the first timer runs; both timers run and two
  requests are in flight; the first one settles. \<open>finally\<close> clears \<open>isLoading\<close> and the
  submit button is enabled, while the request of the second prompt is still in flight.
\<close>

theorem overlapping_prompts_clear_busy_flag:
  "isLoading (state (run ''123e4567-e89b-42d3-a456-426614174000''
        ''9b2d7c1e-5f3a-4c8b-8e21-0a1b2c3d4e5f''
        (Some \<lparr>sessionStorage = Map.empty, localStorage = Map.empty\<rparr>)
        [PromptClick ''I am anxious about the future.'',
         PromptClick ''I spend too much time with computers.'',
         Timeout, Timeout]))
   \<and> length (in_flight (run ''123e4567-e89b-42d3-a456-426614174000''
        ''9b2d7c1e-5f3a-4c8b-8e21-0a1b2c3d4e5f''
        (Some \<lparr>sessionStorage = Map.empty, localStorage = Map.empty\<rparr>)
        [PromptClick ''I am anxious about the future.'',
         PromptClick ''I spend too much time with computers.'',
         Timeout, Timeout])) = 2
   \<and> \<not> isLoading (state (run ''123e4567-e89b-42d3-a456-426614174000''
        ''9b2d7c1e-5f3a-4c8b-8e21-0a1b2c3d4e5f''
        (Some \<lparr>sessionStorage = Map.empty, localStorage = Map.empty\<rparr>)
        [PromptClick ''I am anxious about the future.'',
         PromptClick ''I spend too much time with computers.'',
         Timeout, Timeout,
         Settled 0 (Resolved \<lparr>status = 200,
           body_json = Inr (JObj [(''output_data'', JObj [(''content'', JStr ''WHY?'')])])\<rparr>)]))
   \<and> \<not> submit_disabled (state (run ''123e4567-e89b-42d3-a456-426614174000''
        ''9b2d7c1e-5f3a-4c8b-8e21-0a1b2c3d4e5f''
        (Some \<lparr>sessionStorage = Map.empty, localStorage = Map.empty\<rparr>)
        [PromptClick ''I am anxious about the future.'',
         PromptClick ''I spend too much time with computers.'',
         Timeout, Timeout,
         Settled 0 (Resolved \<lparr>status = 200,
           body_json = Inr (JObj [(''output_data'', JObj [(''content'', JStr ''WHY?'')])])\<rparr>)]))
   \<and> in_flight (run ''123e4567-e89b-42d3-a456-426614174000''
        ''9b2d7c1e-5f3a-4c8b-8e21-0a1b2c3d4e5f''
        (Some \<lparr>sessionStorage = Map.empty, localStorage = Map.empty\<rparr>)
        [PromptClick ''I am anxious about the future.'',
         PromptClick ''I spend too much time with computers.'',
         Timeout, Timeout,
         Settled 0 (Resolved \<lparr>status = 200,
           body_json = Inr (JObj [(''output_data'', JObj [(''content'', JStr ''WHY?'')])])\<rparr>)])
     = [proxy_request (payload
          \<lparr>role = ''user'', content = JStr ''I spend too much time with computers.''\<rparr>
          ''9b2d7c1e5f3a4c8b8e210a1b2c3d4e5f'' ''123e4567e89b42d3a456426614174000'')]"
  by (simp add: run_def mounted_def initIdentity_def getSessionId_def getUserId_def validId_def
        newId_def initial_state_def prompt_disabled_def submit_disabled_def
        handlePromptClick_def dispatched_def submitMessage_def trim_prompt1 trim_prompt2
        settle_def try_block_def agentReply_def getProp_def getPropU_def ok_def Let_def)

lemma trim_hi: "trim '' hi '' = ''hi''"
  by (simp add: trim_def trimStart_def trimEnd_def isWhiteSpace_def)

lemma handler_forwards:
  "req_method req = ''POST'' \<Longrightarrow>
   snd (handler chatConfig env fetch req) = [upstream_request chatConfig env (req_body req)]"
  by (simp add: handler_def Let_def split: sum.splits)

lemma payload_roundtrip:
  "JSON_roundtrip (payload \<lparr>role = r, content = JStr c\<rparr> user_id session_id)
     = payload \<lparr>role = r, content = JStr c\<rparr> user_id session_id"
  by (simp add: payload_def message_json_def)

text \<open>
  Claim C6. For an input that is not blank, \<open>submitMessage\<close> posts to \<open>/api/proxy\<close> the
  envelope \<open>{data: {message}, stateful: true, stream: false, user_id, session_id,
  verbose: false}\<close> with the user's message and the identifiers of the state. On a
  \<open>POST\<close> the handler sends one request, to the configured URL, whose body is the body it
  received.
\<close>

theorem request_envelope:
  assumes "trim userInput \<noteq> []"
  shows "snd (submitMessage userInput s)
           = Some \<lparr>url = Some ''/api/proxy'',
                   http_method = ''POST'',
                   http_headers = [(''Content-Type'', ''application/json'')],
                   http_body = Some (JObj
                     [(''data'', JObj [(''message'',
                         JObj [(''role'', JStr ''user''),
                               (''content'', JStr (trim userInput))])]),
                      (''stateful'', JBool True),
                      (''stream'', JBool False),
                      (''user_id'', JStr (userId s)),
                      (''session_id'', JStr (sessionId s)),
                      (''verbose'', JBool False)])\<rparr>
       \<and> (\<forall>req. req_method req = ''POST'' \<longrightarrow>
             snd (handler chatConfig env fetch req)
               = [\<lparr>url = flowURL chatConfig,
                   http_method = ''POST'',
                   http_headers =
                     [(''Content-Type'', ''application/json''),
                      (''Authorization'', ''Bearer '' @ template (ZEROWIDTH_API_KEY env))],
                   http_body = req_body req\<rparr>])"
  using assms
  by (simp add: submitMessage_sends proxy_request_def payload_def message_json_def
        handler_forwards upstream_request_def Let_def)

theorem request_envelope_witness:
  "snd (submitMessage '' hi '' (initial_state\<lparr>sessionId := ''s1'', userId := ''u1''\<rparr>))
     = Some \<lparr>url = Some ''/api/proxy'',
             http_method = ''POST'',
             http_headers = [(''Content-Type'', ''application/json'')],
             http_body = Some (JObj
               [(''data'', JObj [(''message'',
                   JObj [(''role'', JStr ''user''), (''content'', JStr ''hi'')])]),
                (''stateful'', JBool True),
                (''stream'', JBool False),
                (''user_id'', JStr ''u1''),
                (''session_id'', JStr ''s1''),
                (''verbose'', JBool False)])\<rparr>
   \<and> map http_body (snd (handler \<lparr>flowURL = Some ''https://upstream''\<rparr>
        \<lparr>ZEROWIDTH_API_KEY = Some ''k''\<rparr>
        (\<lambda>rq. Rejected ''fetch failed'')
        \<lparr>req_method = ''POST'',
         req_body = Some (JObj
               [(''data'', JObj [(''message'',
                   JObj [(''role'', JStr ''user''), (''content'', JStr ''hi'')])]),
                (''stateful'', JBool True),
                (''stream'', JBool False),
                (''user_id'', JStr ''u1''),
                (''session_id'', JStr ''s1''),
                (''verbose'', JBool False)])\<rparr>))
     = [Some (JObj
               [(''data'', JObj [(''message'',
                   JObj [(''role'', JStr ''user''), (''content'', JStr ''hi'')])]),
                (''stateful'', JBool True),
                (''stream'', JBool False),
                (''user_id'', JStr ''u1''),
                (''session_id'', JStr ''s1''),
                (''verbose'', JBool False)])]"
proof -
  let ?p = "JObj
               [(''data'', JObj [(''message'',
                   JObj [(''role'', JStr ''user''), (''content'', JStr ''hi'')])]),
                (''stateful'', JBool True),
                (''stream'', JBool False),
                (''user_id'', JStr ''u1''),
                (''session_id'', JStr ''s1''),
                (''verbose'', JBool False)]"
  let ?req = "\<lparr>req_method = ''POST'', req_body = Some ?p\<rparr>"
  have t: "trim '' hi '' \<noteq> []" by (simp add: trim_hi)
  have m: "req_method ?req = ''POST''" by simp
  from request_envelope [OF t, of "initial_state\<lparr>sessionId := ''s1'', userId := ''u1''\<rparr>"
         "\<lparr>flowURL = Some ''https://upstream''\<rparr>" "\<lparr>ZEROWIDTH_API_KEY = Some ''k''\<rparr>"
         "\<lambda>rq. Rejected ''fetch failed''"] m
  show ?thesis by (simp add: trim_hi initial_state_def)
qed

text \<open>
  Claim C10. For an input that is not blank, the user message appended to the
  conversation and the one in the envelope have the trimmed input as content, in both
  components. The trimmed input is the input without its leading and trailing white
  space: it starts and ends with a character that is not white space, and the input is
  white space, the trimmed input, white space.
\<close>

theorem user_message_is_trimmed:
  "(trim userInput \<noteq> [] \<longrightarrow>
      conversation (fst (submitMessage userInput s))
        = conversation s @ [\<lparr>role = ''user'', content = JStr (trim userInput)\<rparr>]
    \<and> (\<exists>rq p d m. snd (submitMessage userInput s) = Some rq \<and> http_body rq = Some p
          \<and> getProp p ''data'' = Inr (Some d) \<and> getProp d ''message'' = Inr (Some m)
          \<and> getProp m ''content'' = Inr (Some (JStr (trim userInput))))
    \<and> \<not> isWhiteSpace (hd (trim userInput)) \<and> \<not> isWhiteSpace (last (trim userInput)))
   \<and> (trim (message t) \<noteq> [] \<longrightarrow>
      conversation (fst (handleSubmit2 t))
        = conversation t @ [\<lparr>role = ''user'', content = JStr (trim (message t))\<rparr>]
    \<and> (\<exists>rq p d m. snd (handleSubmit2 t) = Some rq \<and> http_body rq = Some p
          \<and> getProp p ''data'' = Inr (Some d) \<and> getProp d ''message'' = Inr (Some m)
          \<and> getProp m ''content'' = Inr (Some (JStr (trim (message t))))))
   \<and> (\<exists>a b. userInput = a @ trim userInput @ b
          \<and> (\<forall>c \<in> set a. isWhiteSpace c) \<and> (\<forall>c \<in> set b. isWhiteSpace c))"
proof (intro conjI impI)
  assume ne: "trim userInput \<noteq> []"
  then show "conversation (fst (submitMessage userInput s))
               = conversation s @ [\<lparr>role = ''user'', content = JStr (trim userInput)\<rparr>]"
    by (simp add: submitMessage_sends)
  from ne show "\<exists>rq p d m. snd (submitMessage userInput s) = Some rq \<and> http_body rq = Some p
          \<and> getProp p ''data'' = Inr (Some d) \<and> getProp d ''message'' = Inr (Some m)
          \<and> getProp m ''content'' = Inr (Some (JStr (trim userInput)))"
    by (simp add: submitMessage_sends proxy_request_def payload_def message_json_def getProp_def)
  from ne show "\<not> isWhiteSpace (hd (trim userInput))" by (rule trim_ends)
  from ne show "\<not> isWhiteSpace (last (trim userInput))" by (rule trim_ends)
next
  assume ne: "trim (message t) \<noteq> []"
  then show "conversation (fst (handleSubmit2 t))
               = conversation t @ [\<lparr>role = ''user'', content = JStr (trim (message t))\<rparr>]"
    by (simp add: handleSubmit2_sends)
  from ne show "\<exists>rq p d m. snd (handleSubmit2 t) = Some rq \<and> http_body rq = Some p
          \<and> getProp p ''data'' = Inr (Some d) \<and> getProp d ''message'' = Inr (Some m)
          \<and> getProp m ''content'' = Inr (Some (JStr (trim (message t))))"
    by (simp add: handleSubmit2_sends proxy_request_def payload_def message_json_def getProp_def)
next
  have ws1: "\<forall>c \<in> set (takeWhile isWhiteSpace userInput). isWhiteSpace c"
    by (auto dest: set_takeWhileD)
  have ws2: "\<forall>c \<in> set (rev (takeWhile isWhiteSpace (rev (trimStart userInput)))). isWhiteSpace c"
    by (auto dest: set_takeWhileD)
  from trim_split [of userInput] ws1 ws2
  show "\<exists>a b. userInput = a @ trim userInput @ b
          \<and> (\<forall>c \<in> set a. isWhiteSpace c) \<and> (\<forall>c \<in> set b. isWhiteSpace c)"
    by blast
qed

theorem user_message_is_trimmed_witness:
  "conversation (fst (submitMessage '' hi '' initial_state))
     = [\<lparr>role = ''user'', content = JStr ''hi''\<rparr>]
   \<and> conversation (fst (handleSubmit2
        \<lparr>message = '' hi '', conversation = [], error = None, isLoading = False\<rparr>))
     = [\<lparr>role = ''user'', content = JStr ''hi''\<rparr>]
   \<and> ''hi'' \<noteq> '' hi ''"
proof -
  let ?t = "\<lparr>message = '' hi '', conversation = [], error = None, isLoading = False\<rparr>"
  have a: "trim '' hi '' \<noteq> []" by (simp add: trim_hi)
  have b: "trim (message ?t) \<noteq> []" by (simp add: trim_hi)
  from user_message_is_trimmed [of "'' hi ''" initial_state ?t] a b
  show ?thesis by (simp add: trim_hi initial_state_def)
qed

end
